theory Spec2Isabelle
  imports
    Complex_Main
    "HOL-Library.Char_ord"
    "HOL-Library.List_Lexorder"
    "HOL-Library.Product_Lexorder"
begin

section \<open>Python values, truthiness and exceptions\<close>

text \<open>
  The engines of \<^verbatim>\<open>product_level_churn.py\<close> and \<^verbatim>\<open>competitor_intelligence.py\<close>
  read order records decoded from JSON. A decoded field is one of the values of \<open>jv\<close>.
  Python floats are modelled by the reals (no rounding error, no overflow, no NaN), and
  every exception the modelled code can raise is a value of \<open>error\<close>; a function that
  can raise returns \<open>error + 'a\<close> with \<open>Inl\<close> for the exception.
\<close>

datatype error = ValueError | TypeError | AttributeError | IndexError

datatype jv =
    JNull
  | JBool bool
  | JNum real
  | JStr string
  | JArr "jv list"
  | JObj "(string \<times> jv) list"

text \<open>Python truthiness: \<open>None\<close>, \<open>False\<close>, zero and empty containers are falsy.\<close>

fun truthy :: "jv \<Rightarrow> bool" where
  "truthy JNull = False"
| "truthy (JBool b) = b"
| "truthy (JNum r) = (r \<noteq> 0)"
| "truthy (JStr s) = (s \<noteq> [])"
| "truthy (JArr xs) = (xs \<noteq> [])"
| "truthy (JObj kvs) = (kvs \<noteq> [])"

text \<open>\<open>a or b\<close>: the first operand when it is truthy, else the second.\<close>

definition py_or :: "jv \<Rightarrow> jv \<Rightarrow> jv" where
  "py_or a b = (if truthy a then a else b)"

text \<open>\<open>d.get(k, default)\<close> for a field that is absent (\<open>None\<close>) or present.\<close>

definition get_or :: "jv option \<Rightarrow> jv \<Rightarrow> jv" where
  "get_or field dflt = (case field of None \<Rightarrow> dflt | Some v \<Rightarrow> v)"

text \<open>
  The built-in \<open>float(x)\<close>. Its string parser is a parameter \<open>sf\<close> (\<open>None\<close> where
  Python raises \<open>ValueError\<close>), so that every general statement holds for Python's own
  parser. A number converts to itself, a boolean to 0 or 1; \<open>None\<close>, lists and
  dictionaries raise \<open>TypeError\<close>.
\<close>

fun py_float :: "(string \<Rightarrow> real option) \<Rightarrow> jv \<Rightarrow> error + real" where
  "py_float sf (JNum r) = Inr r"
| "py_float sf (JBool b) = Inr (if b then 1 else 0)"
| "py_float sf (JStr s) = (case sf s of None \<Rightarrow> Inl ValueError | Some r \<Rightarrow> Inr r)"
| "py_float sf JNull = Inl TypeError"
| "py_float sf (JArr xs) = Inl TypeError"
| "py_float sf (JObj kvs) = Inl TypeError"

text \<open>
  A concrete string parser for evaluating examples: the plain decimal fragment of what
  \<open>float\<close> accepts (an optional sign, digits, an optional fraction). Every string it
  rejects here that the examples use (such as \<open>''abc''\<close>) is rejected by Python too.
\<close>

definition digit_val :: "char \<Rightarrow> nat option" where
  "digit_val c =
     (let n = (of_char c :: nat) in if 48 \<le> n \<and> n \<le> 57 then Some (n - 48) else None)"

fun digits_val :: "nat \<Rightarrow> string \<Rightarrow> nat option" where
  "digits_val acc [] = Some acc"
| "digits_val acc (c # cs) =
     (case digit_val c of None \<Rightarrow> None | Some d \<Rightarrow> digits_val (acc * 10 + d) cs)"

definition unsigned_decimal :: "string \<Rightarrow> real option" where
  "unsigned_decimal s =
     (let ip = takeWhile (\<lambda>c. c \<noteq> CHR ''.'') s;
          rest = dropWhile (\<lambda>c. c \<noteq> CHR ''.'') s;
          fp = (case rest of [] \<Rightarrow> [] | _ # cs \<Rightarrow> cs)
      in if ip = [] \<and> fp = [] then None
         else case (digits_val 0 ip, digits_val 0 fp) of
                (Some i, Some f) \<Rightarrow> Some (real i + real f / 10 ^ length fp)
              | _ \<Rightarrow> None)"

definition decimal_float :: "string \<Rightarrow> real option" where
  "decimal_float s =
     (case s of
        [] \<Rightarrow> None
      | c # cs \<Rightarrow>
          if c = CHR ''-'' then map_option uminus (unsigned_decimal cs)
          else if c = CHR ''+'' then unsigned_decimal cs
          else unsigned_decimal s)"

section \<open>Raw order records\<close>

text \<open>
  A raw order is a JSON object. Its identifier, label and date fields are strings when
  present, as the documented input format has them (\<open>None\<close>: the key is absent; for
  \<open>parse_orders\<close> a JSON null behaves the same, since \<open>dict.get\<close> returns \<open>None\<close> for
  both). Its quantity and value fields hold any JSON value when present.
\<close>

record raw_order =
  r_customer_id :: "string option"
  r_customer :: "string option"
  r_account :: "string option"
  r_product :: "string option"
  r_item :: "string option"
  r_category :: "string option"
  r_date :: "string option"
  r_order_date :: "string option"
  r_quantity :: "jv option"
  r_qty :: "jv option"
  r_value :: "jv option"
  r_amount :: "jv option"
  r_total :: "jv option"

definition empty_order :: raw_order where
  "empty_order =
     \<lparr>r_customer_id = None, r_customer = None, r_account = None, r_product = None,
      r_item = None, r_category = None, r_date = None, r_order_date = None,
      r_quantity = None, r_qty = None, r_value = None, r_amount = None, r_total = None\<rparr>"

text \<open>Truthiness and \<open>or\<close> on an optional string (\<open>None\<close> and \<open>''''\<close> are falsy).\<close>

definition truthy_str :: "string option \<Rightarrow> bool" where
  "truthy_str s = (case s of None \<Rightarrow> False | Some t \<Rightarrow> t \<noteq> [])"

definition str_or :: "string option \<Rightarrow> string option \<Rightarrow> string option" where
  "str_or a b = (if truthy_str a then a else b)"

section \<open>Category normalisation\<close>

text \<open>\<open>str.lower\<close> on ASCII text: the 26 capital letters change, nothing else does.\<close>

definition lower_char :: "char \<Rightarrow> char" where
  "lower_char c =
     (case map_of (zip ''ABCDEFGHIJKLMNOPQRSTUVWXYZ'' ''abcdefghijklmnopqrstuvwxyz'') c of
        None \<Rightarrow> c
      | Some l \<Rightarrow> l)"

definition lower :: "string \<Rightarrow> string" where
  "lower s = map lower_char s"

fun starts_with :: "string \<Rightarrow> string \<Rightarrow> bool" where
  "starts_with [] hay = True"
| "starts_with (c # cs) [] = False"
| "starts_with (c # cs) (h # hs) = (c = h \<and> starts_with cs hs)"

text \<open>\<open>needle in hay\<close> on strings: \<open>needle\<close> occurs as a contiguous substring.\<close>

fun contains :: "string \<Rightarrow> string \<Rightarrow> bool" where
  "contains needle [] = (needle = [])"
| "contains needle (h # hs) = (starts_with needle (h # hs) \<or> contains needle hs)"

definition category_synonyms :: "(string \<times> string list) list" where
  "category_synonyms =
     [(''chicken'', [''chicken'', ''poultry'', ''wings'', ''breast'', ''thighs'']),
      (''drinks'', [''drinks'', ''beverages'', ''soft drinks'', ''cola'', ''water'', ''juice'']),
      (''cheese'', [''cheese'', ''dairy'', ''cheddar'', ''mozzarella'']),
      (''dips'', [''dips'', ''sauce'', ''condiments'', ''mayo'', ''ketchup'']),
      (''produce'', [''vegetables'', ''produce'', ''salad'', ''lettuce'', ''tomato''])]"

definition normalize_category :: "string \<Rightarrow> string" where
  "normalize_category raw_category =
     (let raw_lower = lower raw_category
      in case find (\<lambda>(category, synonyms). list_ex (\<lambda>syn. contains syn raw_lower) synonyms)
                category_synonyms of
           Some (category, synonyms) \<Rightarrow> category
         | None \<Rightarrow> raw_lower)"

section \<open>Grouping: \<open>parse_orders\<close>\<close>

text \<open>A grouped order: the dictionary \<open>{'date', 'quantity', 'value'}\<close> built at lines 115-119.\<close>

record order =
  date :: "string option"
  quantity :: real
  value_amt :: real

text \<open>
  \<open>defaultdict\<close> as an association list in insertion order: \<open>dd_update k d f\<close> applies
  \<open>f\<close> to the entry of \<open>k\<close>, created with the default \<open>d\<close> at the end when missing.
\<close>

fun dd_update :: "'k \<Rightarrow> 'v \<Rightarrow> ('v \<Rightarrow> 'v) \<Rightarrow> ('k \<times> 'v) list \<Rightarrow> ('k \<times> 'v) list" where
  "dd_update k d f [] = [(k, f d)]"
| "dd_update k d f ((k', v) # kvs) =
     (if k' = k then (k', f v) # kvs else (k', v) # dd_update k d f kvs)"

type_synonym grouped = "(string \<times> (string \<times> order list) list) list"

text \<open>Line 117: \<open>float(order.get('quantity', 0) or order.get('qty', 0) or 1)\<close>.\<close>

definition order_quantity :: "(string \<Rightarrow> real option) \<Rightarrow> raw_order \<Rightarrow> error + real" where
  "order_quantity sf ord =
     py_float sf
       (py_or (py_or (get_or (r_quantity ord) (JNum 0)) (get_or (r_qty ord) (JNum 0))) (JNum 1))"

text \<open>
  Line 118:
  \<open>float(order.get('value', 0) or order.get('amount', 0) or order.get('total', 0))\<close>.
\<close>

definition order_value :: "(string \<Rightarrow> real option) \<Rightarrow> raw_order \<Rightarrow> error + real" where
  "order_value sf ord =
     py_float sf
       (py_or (py_or (get_or (r_value ord) (JNum 0)) (get_or (r_amount ord) (JNum 0)))
          (get_or (r_total ord) (JNum 0)))"

definition order_customer :: "raw_order \<Rightarrow> string option" where
  "order_customer ord = str_or (str_or (r_customer_id ord) (r_customer ord)) (r_account ord)"

definition order_product :: "raw_order \<Rightarrow> string option" where
  "order_product ord = str_or (str_or (r_product ord) (r_item ord)) (r_category ord)"

text \<open>A record is kept by grouping when it has a customer identifier and a product label.\<close>

definition kept :: "raw_order \<Rightarrow> bool" where
  "kept ord = (truthy_str (order_customer ord) \<and> truthy_str (order_product ord))"

text \<open>
  One iteration of the loop of \<open>parse_orders\<close> on the dictionary built so far. The
  quantity is coerced before the value, and a failing \<open>float\<close> is not caught: it leaves
  the loop and the function.
\<close>

definition parse_order :: "(string \<Rightarrow> real option) \<Rightarrow> grouped \<Rightarrow> raw_order \<Rightarrow> error + grouped" where
  "parse_order sf grouped ord =
     (case (order_customer ord, order_product ord) of
        (Some customer_id, Some product) \<Rightarrow>
          if customer_id = [] \<or> product = [] then Inr grouped
          else
            (let category = normalize_category product in
             case order_quantity sf ord of
               Inl e \<Rightarrow> Inl e
             | Inr q \<Rightarrow>
                 (case order_value sf ord of
                    Inl e \<Rightarrow> Inl e
                  | Inr v \<Rightarrow>
                      Inr (dd_update customer_id []
                             (dd_update category []
                                (\<lambda>xs. xs @ [\<lparr>date = str_or (r_date ord) (r_order_date ord),
                                               quantity = q, value_amt = v\<rparr>]))
                             grouped)))
      | _ \<Rightarrow> Inr grouped)"

fun parse_loop :: "(string \<Rightarrow> real option) \<Rightarrow> grouped \<Rightarrow> raw_order list \<Rightarrow> error + grouped" where
  "parse_loop sf grouped [] = Inr grouped"
| "parse_loop sf grouped (ord # orders) =
     (case parse_order sf grouped ord of
        Inl e \<Rightarrow> Inl e
      | Inr grouped' \<Rightarrow> parse_loop sf grouped' orders)"

definition parse_orders :: "(string \<Rightarrow> real option) \<Rightarrow> raw_order list \<Rightarrow> error + grouped" where
  "parse_orders sf orders = parse_loop sf [] orders"

section \<open>Dates\<close>

text \<open>
  A \<open>datetime\<close> is a count of microseconds (for an aware value, of its UTC instant) and
  the flag that tells aware from naive values; the range limits of Python's type are
  left out. Comparing or subtracting an aware and a naive value raises \<open>TypeError\<close>.
  \<open>datetime.fromisoformat\<close> is a parameter \<open>fromiso\<close> (\<open>None\<close> where Python raises
  \<open>ValueError\<close>); the code always applies it to \<open>s.replace('Z', '+00:00')\<close>.
\<close>

record datetime =
  aware :: bool
  micros :: int

definition replace_Z :: "string \<Rightarrow> string" where
  "replace_Z s = concat (map (\<lambda>c. if c = CHR ''Z'' then ''+00:00'' else [c]) s)"

definition parse_iso :: "(string \<Rightarrow> datetime option) \<Rightarrow> string \<Rightarrow> datetime option" where
  "parse_iso fromiso s = fromiso (replace_Z s)"

definition day_micros :: int where
  "day_micros = 86400000000"

text \<open>\<open>d - timedelta(weeks=w)\<close>.\<close>

definition minus_weeks :: "datetime \<Rightarrow> int \<Rightarrow> datetime" where
  "minus_weeks d w = d\<lparr>micros := micros d - w * 7 * day_micros\<rparr>"

text \<open>
  A concrete parser for evaluating examples: the date-only form \<open>YYYY-MM-DD\<close> of
  \<open>fromisoformat\<close>, a naive datetime at midnight, counted in days from 1970-01-01.
\<close>

definition is_leap :: "int \<Rightarrow> bool" where
  "is_leap y = (y mod 4 = 0 \<and> (if y mod 100 = 0 then y mod 400 = 0 else True))"

definition days_in_month :: "int \<Rightarrow> int \<Rightarrow> int" where
  "days_in_month y m =
     (if m = 2 then (if is_leap y then 29 else 28)
      else if m = 4 \<or> m = 6 \<or> m = 9 \<or> m = 11 then 30 else 31)"

definition days_from_civil :: "int \<Rightarrow> int \<Rightarrow> int \<Rightarrow> int" where
  "days_from_civil y m d =
     (let y' = (if m \<le> 2 then y - 1 else y);
          era = y' div 400;
          yoe = y' mod 400;
          doy = (153 * ((m + 9) mod 12) + 2) div 5 + d - 1;
          doe = yoe * 365 + yoe div 4 - yoe div 100 + doy
      in era * 146097 + doe - 719468)"

definition iso_date :: "string \<Rightarrow> datetime option" where
  "iso_date s =
     (if length s = 10 \<and> s ! 4 = CHR ''-'' \<and> s ! 7 = CHR ''-'' then
        (case (digits_val 0 (take 4 s), digits_val 0 (take 2 (drop 5 s)),
               digits_val 0 (drop 8 s)) of
           (Some y, Some m, Some d) \<Rightarrow>
             if 1 \<le> y \<and> 1 \<le> m \<and> m \<le> 12 \<and> 1 \<le> d \<and> int d \<le> days_in_month (int y) (int m)
             then Some \<lparr>aware = False,
                        micros = days_from_civil (int y) (int m) (int d) * day_micros\<rparr>
             else None
         | _ \<Rightarrow> None)
      else None)"

section \<open>The churn engine: configuration, windows and rates\<close>

text \<open>
  The fields of \<open>ProductLevelChurnEngine\<close>: the two constructor arguments and the
  entries of its \<open>thresholds\<close> dictionary.
\<close>

record engine =
  lookback_weeks :: int
  baseline_weeks :: int
  stopped_weeks :: real
  decline_pct :: real
  critical_decline_pct :: real
  volatility_threshold :: real

definition default_engine :: engine where
  "default_engine =
     \<lparr>lookback_weeks = 12, baseline_weeks = 8, stopped_weeks = 4, decline_pct = 40,
      critical_decline_pct = 70, volatility_threshold = 1 / 2\<rparr>"

text \<open>
  The loop of \<open>calculate_baseline\<close> (lines 129-135). \<open>order['date'].replace\<close> on a
  \<open>None\<close> date raises \<open>AttributeError\<close>, which the \<open>except\<close> clause does not list;
  a \<open>ValueError\<close> of the parser and the \<open>TypeError\<close> of a mixed comparison are
  caught and skip the order.
\<close>

fun baseline_window ::
  "(string \<Rightarrow> datetime option) \<Rightarrow> datetime \<Rightarrow> datetime \<Rightarrow> order list \<Rightarrow> error + order list" where
  "baseline_window fromiso bstart bend [] = Inr []"
| "baseline_window fromiso bstart bend (ord # orders) =
     (case date ord of
        None \<Rightarrow> Inl AttributeError
      | Some s \<Rightarrow>
          (case baseline_window fromiso bstart bend orders of
             Inl e \<Rightarrow> Inl e
           | Inr rest \<Rightarrow>
               (case parse_iso fromiso s of
                  None \<Rightarrow> Inr rest
                | Some d \<Rightarrow>
                    if aware d \<noteq> aware bstart then Inr rest
                    else if micros bstart \<le> micros d \<and> micros d \<le> micros bend
                    then Inr (ord # rest)
                    else Inr rest)))"

definition calculate_baseline ::
  "engine \<Rightarrow> (string \<Rightarrow> datetime option) \<Rightarrow> order list \<Rightarrow> datetime \<Rightarrow> error + (real \<times> real)" where
  "calculate_baseline e fromiso orders reference_date =
     (let baseline_start = minus_weeks reference_date (lookback_weeks e);
          baseline_end = minus_weeks reference_date (lookback_weeks e - baseline_weeks e)
      in case baseline_window fromiso baseline_start baseline_end orders of
           Inl err \<Rightarrow> Inl err
         | Inr in_window \<Rightarrow>
             (let baseline_orders =
                    (if in_window = []
                     then (if length orders > 4 then take (length orders div 2) orders
                           else orders)
                     else in_window);
                  total_qty = sum_list (map quantity baseline_orders);
                  total_value = sum_list (map value_amt baseline_orders);
                  weeks = max 1 (baseline_weeks e)
              in Inr (total_qty / of_int weeks, total_value / of_int weeks)))"

text \<open>
  The loop of \<open>calculate_current\<close> (lines 154-162), on the pair of \<open>recent_orders\<close>
  and \<open>last_order_date\<close>.
\<close>

fun current_loop ::
  "(string \<Rightarrow> datetime option) \<Rightarrow> datetime \<Rightarrow> order list \<Rightarrow> order list \<times> string option \<Rightarrow>
   error + (order list \<times> string option)" where
  "current_loop fromiso recent_start [] st = Inr st"
| "current_loop fromiso recent_start (ord # orders) (recent_orders, last_order_date) =
     (case date ord of
        None \<Rightarrow> Inl AttributeError
      | Some s \<Rightarrow>
          (case parse_iso fromiso s of
             None \<Rightarrow> current_loop fromiso recent_start orders (recent_orders, last_order_date)
           | Some d \<Rightarrow>
               if aware d \<noteq> aware recent_start
               then current_loop fromiso recent_start orders (recent_orders, last_order_date)
               else
                 (let recent' =
                        (if micros d \<ge> micros recent_start then recent_orders @ [ord]
                         else recent_orders)
                  in case last_order_date of
                       None \<Rightarrow> current_loop fromiso recent_start orders (recent', Some s)
                     | Some l \<Rightarrow>
                         (case parse_iso fromiso l of
                            None \<Rightarrow> current_loop fromiso recent_start orders (recent', Some l)
                          | Some ld \<Rightarrow>
                              if aware ld \<noteq> aware d
                              then current_loop fromiso recent_start orders (recent', Some l)
                              else if micros d > micros ld
                              then current_loop fromiso recent_start orders (recent', Some s)
                              else current_loop fromiso recent_start orders (recent', Some l)))))"

definition calculate_current ::
  "(string \<Rightarrow> datetime option) \<Rightarrow> order list \<Rightarrow> datetime \<Rightarrow>
   error + (real \<times> real \<times> string option)" where
  "calculate_current fromiso orders reference_date =
     (case current_loop fromiso (minus_weeks reference_date 4) orders ([], None) of
        Inl err \<Rightarrow> Inl err
      | Inr (recent_orders, last_order_date) \<Rightarrow>
          Inr (sum_list (map quantity recent_orders) / 4,
               sum_list (map value_amt recent_orders) / 4,
               last_order_date))"

section \<open>Volatility\<close>

text \<open>
  \<open>statistics.mean\<close> and \<open>statistics.stdev\<close> of the standard library: the arithmetic
  mean, and the square root of the sample variance (the squared deviations from the mean
  summed and divided by \<open>n - 1\<close>).
\<close>

definition mean :: "real list \<Rightarrow> real" where
  "mean xs = sum_list xs / real (length xs)"

definition stdev :: "real list \<Rightarrow> real" where
  "stdev xs = sqrt (sum_list (map (\<lambda>x. (x - mean xs)\<^sup>2) xs) / real (length xs - 1))"

definition calculate_volatility :: "order list \<Rightarrow> real" where
  "calculate_volatility orders =
     (let quantities = filter (\<lambda>q. q > 0) (map quantity orders)
      in if length quantities < 2 then 0
         else if mean quantities = 0 then 0
         else stdev quantities / mean quantities)"

section \<open>Trend classification\<close>

datatype trend = Stable | Growing | Declining | Stopped

text \<open>
  \<open>(reference_date - last_date).days\<close> inside the \<open>try\<close> blocks of \<open>detect_trend\<close>
  and \<open>analyze\<close>: \<open>None\<close> when \<open>last_order_date\<close> is falsy or an exception is caught.
\<close>

definition days_since ::
  "(string \<Rightarrow> datetime option) \<Rightarrow> string option \<Rightarrow> datetime \<Rightarrow> int option" where
  "days_since fromiso last_order_date reference_date =
     (case last_order_date of
        None \<Rightarrow> None
      | Some s \<Rightarrow>
          if s = [] then None
          else (case parse_iso fromiso s of
                  None \<Rightarrow> None
                | Some last_date \<Rightarrow>
                    if aware last_date \<noteq> aware reference_date then None
                    else Some ((micros reference_date - micros last_date) div day_micros)))"

definition detect_trend ::
  "engine \<Rightarrow> (string \<Rightarrow> datetime option) \<Rightarrow> real \<Rightarrow> real \<Rightarrow> string option \<Rightarrow> datetime \<Rightarrow> trend" where
  "detect_trend e fromiso baseline_qty current_qty last_order_date reference_date =
     (if (case days_since fromiso last_order_date reference_date of
            None \<Rightarrow> False
          | Some days \<Rightarrow> of_int days / 7 \<ge> stopped_weeks e)
      then Stopped
      else if baseline_qty = 0 then (if current_qty = 0 then Stable else Growing)
      else
        (let change_pct = ((current_qty - baseline_qty) / baseline_qty) * 100
         in if change_pct \<le> - critical_decline_pct e then Stopped
            else if change_pct \<le> - decline_pct e then Declining
            else if change_pct \<ge> 20 then Growing
            else Stable))"

section \<open>Profiles and alerts\<close>

datatype severity = Critical | Warning | Watch

record customer_category_profile =
  p_customer_id :: string
  p_category :: string
  order_history :: "order list"
  baseline_weekly_qty :: real
  baseline_weekly_value :: real
  current_weekly_qty :: real
  current_weekly_value :: real
  last_order_date :: "string option"
  trend :: trend
  volatility :: real

text \<open>
  \<open>CategoryAlert\<close> without \<open>recommended_action\<close>, a formatted text that no
  property below reads.
\<close>

record category_alert =
  a_customer_id :: string
  a_category :: string
  signal_type :: trend
  severity :: severity
  baseline_quantity :: real
  current_quantity :: real
  drop_percentage :: real
  weeks_since_last_order :: int
  estimated_lost_revenue :: real
  competitor_likely :: bool
  recommended_discount :: real

text \<open>
  \<open>round(x, nd)\<close> on the reals: to the nearest multiple of \<open>10\<^sup>-\<^sup>n\<^sup>d\<close>, a tie to
  the even one.
\<close>

definition round_half_even :: "real \<Rightarrow> int" where
  "round_half_even x =
     (let f = \<lfloor>x\<rfloor>; d = x - of_int f
      in if d < 1 / 2 then f else if d > 1 / 2 then f + 1 else if even f then f else f + 1)"

definition py_round :: "real \<Rightarrow> nat \<Rightarrow> real" where
  "py_round x nd = of_int (round_half_even (x * 10 ^ nd)) / 10 ^ nd"

text \<open>\<open>int(d / 7)\<close> for an integer \<open>d\<close>: the quotient truncated towards zero.\<close>

definition int_div7 :: "int \<Rightarrow> int" where
  "int_div7 d = (if d \<ge> 0 then d div 7 else - ((- d) div 7))"

text \<open>
  \<open>cat_orders.sort(key=lambda x: x.get('date', ''), reverse=True)\<close>: a stable sort by
  the date string, descending (elements with equal keys keep their order). Comparing
  \<open>None\<close> with anything raises \<open>TypeError\<close>, and a list of two or more elements
  compares each of its keys at least once.
\<close>

definition date_key :: "order \<Rightarrow> string" where
  "date_key ord = (case date ord of None \<Rightarrow> [] | Some s \<Rightarrow> s)"

definition sort_by_date_desc :: "order list \<Rightarrow> error + order list" where
  "sort_by_date_desc xs =
     (if 2 \<le> length xs \<and> list_ex (\<lambda>ord. date ord = None) xs then Inl TypeError
      else Inr (rev (sort_key date_key (rev xs))))"

text \<open>The slice \<open>xs[-n:]\<close>: the last \<open>n\<close> elements, all of them when there are fewer.\<close>

definition last_n :: "nat \<Rightarrow> 'a list \<Rightarrow> 'a list" where
  "last_n n xs = drop (length xs - n) xs"

text \<open>The discount of \<open>generate_recommendation\<close>.\<close>

definition generate_recommendation :: "severity \<Rightarrow> real \<Rightarrow> real" where
  "generate_recommendation sev drop_pct =
     (if sev = Critical then min 25 (10 + drop_pct / 10)
      else if sev = Warning then min 15 (5 + drop_pct / 20)
      else 5)"

definition detect_competitor_signal :: "customer_category_profile \<Rightarrow> bool" where
  "detect_competitor_signal profile =
     ((trend profile = Stopped \<or> trend profile = Declining) \<and>
      baseline_weekly_qty profile > 0 \<and>
      current_weekly_qty profile < baseline_weekly_qty profile * (3 / 10))"

text \<open>Lines 299-301 and 312-317 of \<open>analyze\<close>.\<close>

definition drop_pct_of :: "real \<Rightarrow> real \<Rightarrow> real" where
  "drop_pct_of baseline_qty current_qty =
     (if baseline_qty > 0 then ((baseline_qty - current_qty) / baseline_qty) * 100 else 0)"

definition severity_of :: "engine \<Rightarrow> trend \<Rightarrow> real \<Rightarrow> severity" where
  "severity_of e tr drop_pct =
     (if tr = Stopped \<or> drop_pct \<ge> critical_decline_pct e then Critical
      else if drop_pct \<ge> decline_pct e then Warning
      else Watch)"

text \<open>Lines 299-339: the alert of a profile whose trend is stopped or declining.\<close>

definition build_alert ::
  "engine \<Rightarrow> (string \<Rightarrow> datetime option) \<Rightarrow> datetime \<Rightarrow> customer_category_profile \<Rightarrow>
   category_alert" where
  "build_alert e fromiso ref_date profile =
     (let drop_pct = drop_pct_of (baseline_weekly_qty profile) (current_weekly_qty profile);
          weeks_since =
            (case days_since fromiso (last_order_date profile) ref_date of
               None \<Rightarrow> 0
             | Some days \<Rightarrow> int_div7 days);
          sev = severity_of e (trend profile) drop_pct;
          estimated_loss =
            (baseline_weekly_value profile - current_weekly_value profile) * 4
      in \<lparr>a_customer_id = p_customer_id profile,
          a_category = p_category profile,
          signal_type = trend profile,
          severity = sev,
          baseline_quantity = py_round (baseline_weekly_qty profile) 2,
          current_quantity = py_round (current_weekly_qty profile) 2,
          drop_percentage = py_round drop_pct 1,
          weeks_since_last_order = weeks_since,
          estimated_lost_revenue = py_round estimated_loss 2,
          competitor_likely = detect_competitor_signal profile,
          recommended_discount = generate_recommendation sev (py_round drop_pct 1)\<rparr>)"

section \<open>The main analysis\<close>

text \<open>The body of the inner loop of \<open>analyze\<close> (lines 273-339) for one category.\<close>

definition analyze_pair ::
  "engine \<Rightarrow> (string \<Rightarrow> datetime option) \<Rightarrow> datetime \<Rightarrow> string \<Rightarrow> string \<Rightarrow> order list \<Rightarrow>
   error + (customer_category_profile \<times> category_alert option)" where
  "analyze_pair e fromiso ref_date customer_id category unsorted =
     (case sort_by_date_desc unsorted of
        Inl err \<Rightarrow> Inl err
      | Inr cat_orders \<Rightarrow>
     (case calculate_baseline e fromiso cat_orders ref_date of
        Inl err \<Rightarrow> Inl err
      | Inr (baseline_qty, baseline_value) \<Rightarrow>
     (case calculate_current fromiso cat_orders ref_date of
        Inl err \<Rightarrow> Inl err
      | Inr (current_qty, current_value, last_order) \<Rightarrow>
          (let tr = detect_trend e fromiso baseline_qty current_qty last_order ref_date;
               profile =
                 \<lparr>p_customer_id = customer_id,
                  p_category = category,
                  order_history = last_n 20 cat_orders,
                  baseline_weekly_qty = baseline_qty,
                  baseline_weekly_value = baseline_value,
                  current_weekly_qty = current_qty,
                  current_weekly_value = current_value,
                  last_order_date = last_order,
                  trend = tr,
                  volatility = calculate_volatility cat_orders\<rparr>
           in Inr (profile,
                   if tr = Stopped \<or> tr = Declining
                   then Some (build_alert e fromiso ref_date profile)
                   else None)))))"

fun analyze_categories ::
  "engine \<Rightarrow> (string \<Rightarrow> datetime option) \<Rightarrow> datetime \<Rightarrow> string \<Rightarrow> (string \<times> order list) list \<Rightarrow>
   error + ((string \<times> customer_category_profile) list \<times> category_alert list)" where
  "analyze_categories e fromiso ref_date customer_id [] = Inr ([], [])"
| "analyze_categories e fromiso ref_date customer_id ((category, cat_orders) # rest) =
     (case analyze_pair e fromiso ref_date customer_id category cat_orders of
        Inl err \<Rightarrow> Inl err
      | Inr (profile, alert) \<Rightarrow>
          (case analyze_categories e fromiso ref_date customer_id rest of
             Inl err \<Rightarrow> Inl err
           | Inr (profiles, alerts) \<Rightarrow>
               Inr ((category, profile) # profiles,
                    (case alert of None \<Rightarrow> alerts | Some a \<Rightarrow> a # alerts))))"

type_synonym profiles = "(string \<times> (string \<times> customer_category_profile) list) list"

fun analyze_customers ::
  "engine \<Rightarrow> (string \<Rightarrow> datetime option) \<Rightarrow> datetime \<Rightarrow> grouped \<Rightarrow>
   error + (profiles \<times> category_alert list)" where
  "analyze_customers e fromiso ref_date [] = Inr ([], [])"
| "analyze_customers e fromiso ref_date ((customer_id, categories) # rest) =
     (case analyze_categories e fromiso ref_date customer_id categories of
        Inl err \<Rightarrow> Inl err
      | Inr (cat_profiles, cat_alerts) \<Rightarrow>
          (case analyze_customers e fromiso ref_date rest of
             Inl err \<Rightarrow> Inl err
           | Inr (profiles, alerts) \<Rightarrow>
               Inr ((customer_id, cat_profiles) # profiles, cat_alerts @ alerts)))"

definition severity_order :: "severity \<Rightarrow> nat" where
  "severity_order sev = (case sev of Critical \<Rightarrow> 0 | Warning \<Rightarrow> 1 | Watch \<Rightarrow> 2)"

text \<open>
  The report of \<open>analyze\<close>: the sorted alerts and the profiles. Its summary and its
  recommendations only count and copy these alerts and are left out.
\<close>

record report =
  alerts :: "category_alert list"
  customer_profiles :: profiles

text \<open>
  \<open>analyze\<close>: \<open>now\<close> is the value of \<open>datetime.now()\<close>, read when no reference date
  is given. Neither the parse of the reference date nor \<open>parse_orders\<close> stands in a
  \<open>try\<close> block.
\<close>

definition analyze ::
  "engine \<Rightarrow> (string \<Rightarrow> real option) \<Rightarrow> (string \<Rightarrow> datetime option) \<Rightarrow> datetime \<Rightarrow>
   raw_order list \<Rightarrow> string option \<Rightarrow> error + report" where
  "analyze e sf fromiso now orders reference_date =
     (case (case reference_date of
              None \<Rightarrow> Inr now
            | Some s \<Rightarrow>
                if s = [] then Inr now
                else (case parse_iso fromiso s of
                        None \<Rightarrow> Inl ValueError
                      | Some d \<Rightarrow> Inr d)) of
        Inl err \<Rightarrow> Inl err
      | Inr ref_date \<Rightarrow>
     (case parse_orders sf orders of
        Inl err \<Rightarrow> Inl err
      | Inr grouped \<Rightarrow>
     (case analyze_customers e fromiso ref_date grouped of
        Inl err \<Rightarrow> Inl err
      | Inr (profiles, emitted) \<Rightarrow>
          Inr \<lparr>alerts =
                 sort_key (\<lambda>a. (severity_order (severity a), - estimated_lost_revenue a))
                   emitted,
               customer_profiles = profiles\<rparr>)))"

section \<open>The competitor engine: price sensitivity and win-back probability\<close>

record price_sensitivity_profile =
  s_customer_id :: string
  s_category :: string
  sensitivity_score :: real
  price_elasticity :: real
  acceptable_premium :: real
  historical_price_response :: string
  optimal_discount_range :: "real \<times> real"

text \<open>
  A JSON value as an operand of a comparison, a division or a subtraction with a number: numbers and
  booleans take part, anything else raises \<open>TypeError\<close>.
\<close>

fun py_num :: "jv \<Rightarrow> error + real" where
  "py_num (JNum r) = Inr r"
| "py_num (JBool b) = Inr (if b then 1 else 0)"
| "py_num JNull = Inl TypeError"
| "py_num (JStr s) = Inl TypeError"
| "py_num (JArr xs) = Inl TypeError"
| "py_num (JObj kvs) = Inl TypeError"

text \<open>
  Line 219: \<open>[o.get('value', 0) / o.get('quantity', 1) for o in orders
  if o.get('quantity', 0) > 0]\<close>.
\<close>

fun prices_of :: "raw_order list \<Rightarrow> error + real list" where
  "prices_of [] = Inr []"
| "prices_of (ord # orders) =
     (case py_num (get_or (r_quantity ord) (JNum 0)) of
        Inl e \<Rightarrow> Inl e
      | Inr q0 \<Rightarrow>
          if q0 > 0 then
            (case py_num (get_or (r_value ord) (JNum 0)) of
               Inl e \<Rightarrow> Inl e
             | Inr v \<Rightarrow>
                 (case py_num (get_or (r_quantity ord) (JNum 1)) of
                    Inl e \<Rightarrow> Inl e
                  | Inr q \<Rightarrow>
                      (case prices_of orders of
                         Inl e \<Rightarrow> Inl e
                       | Inr ps \<Rightarrow> Inr (v / q # ps))))
          else prices_of orders)"

text \<open>
  Line 220: \<open>[o.get('quantity', 0) for o in orders]\<close>, as the numbers that line 227
  subtracts. Line 219 has compared each of them with 0 before, so none fails here.
\<close>

fun quantities_of :: "raw_order list \<Rightarrow> error + real list" where
  "quantities_of [] = Inr []"
| "quantities_of (ord # orders) =
     (case py_num (get_or (r_quantity ord) (JNum 0)) of
        Inl e \<Rightarrow> Inl e
      | Inr q \<Rightarrow>
          (case quantities_of orders of
             Inl e \<Rightarrow> Inl e
           | Inr qs \<Rightarrow> Inr (q # qs)))"

text \<open>\<open>[xs[i] - xs[i-1] for i in range(1, len(xs))]\<close>.\<close>

definition deltas :: "real list \<Rightarrow> real list" where
  "deltas xs = map (\<lambda>i. xs ! i - xs ! (i - 1)) [1..<length xs]"

text \<open>
  \<open>_correlation\<close>: \<open>n\<close> is the length of \<open>x\<close> alone; \<open>y[i]\<close> raises
  \<open>IndexError\<close> when \<open>y\<close> is shorter; \<open>mean_y\<close> and \<open>denom_y\<close> run over all of \<open>y\<close>.
\<close>

definition correlation :: "real list \<Rightarrow> real list \<Rightarrow> error + real" where
  "correlation x y =
     (let n = length x
      in if n < 2 then Inr 0
         else
           (let mean_x = sum_list x / real n;
                mean_y = sum_list y / real n
            in if length y < n then Inl IndexError
               else
                 (let numerator =
                        sum_list (map (\<lambda>i. (x ! i - mean_x) * (y ! i - mean_y)) [0..<n]);
                      denom_x = sqrt (sum_list (map (\<lambda>xi. (xi - mean_x)\<^sup>2) x));
                      denom_y = sqrt (sum_list (map (\<lambda>yi. (yi - mean_y)\<^sup>2) y))
                  in if denom_x * denom_y = 0 then Inr 0
                     else Inr (numerator / (denom_x * denom_y)))))"

text \<open>
  Lines 222-237: the elasticity from the two lists. The bare \<open>except\<close> turns any
  exception of \<open>_correlation\<close> into the elasticity 1.0.
\<close>

definition elasticity_of :: "real list \<Rightarrow> real list \<Rightarrow> real" where
  "elasticity_of prices quantities =
     (if length prices < 2 \<or> length (remdups prices) < 2 then 1
      else
        (let price_changes = deltas prices;
             qty_changes = deltas quantities
         in if length price_changes > 1 then
              (case correlation price_changes qty_changes of
                 Inl err \<Rightarrow> 1
               | Inr c \<Rightarrow> if c < 0 then \<bar>c\<bar> * 2 else 1 / 2)
            else 1))"

text \<open>Line 240: the score before it is rounded for the profile.\<close>

definition score_of :: "real \<Rightarrow> real" where
  "score_of elasticity = min 100 (max 0 (elasticity * 50))"

definition calculate_price_sensitivity ::
  "raw_order list \<Rightarrow> string \<Rightarrow> error + price_sensitivity_profile" where
  "calculate_price_sensitivity orders category =
     (if orders = [] \<or> length orders < 2 then
        Inr \<lparr>s_customer_id =
               (case orders of
                  [] \<Rightarrow> ''unknown''
                | ord # rest \<Rightarrow>
                    (case r_customer_id ord of None \<Rightarrow> ''unknown'' | Some c \<Rightarrow> c)),
             s_category = category,
             sensitivity_score = 50,
             price_elasticity = 1,
             acceptable_premium = 10,
             historical_price_response = ''neutral'',
             optimal_discount_range = (5, 15)\<rparr>
      else
        (case prices_of orders of
           Inl e \<Rightarrow> Inl e
         | Inr prices \<Rightarrow>
        (case quantities_of orders of
           Inl e \<Rightarrow> Inl e
         | Inr quantities \<Rightarrow>
             (let customer_id =
                    (case r_customer_id (hd orders) of None \<Rightarrow> ''unknown'' | Some c \<Rightarrow> c);
                  elasticity = elasticity_of prices quantities;
                  score = score_of elasticity;
                  (response, premium, optimal_range) =
                    (if score > 70 then (''highly_sensitive'', 5, (10, 20))
                     else if score > 40 then (''moderately_sensitive'', 10, (5, 15))
                     else (''low_sensitivity'', 20, (0, 10)))
              in Inr \<lparr>s_customer_id = customer_id,
                      s_category = category,
                      sensitivity_score = py_round score 1,
                      price_elasticity = py_round elasticity 2,
                      acceptable_premium = premium,
                      historical_price_response = response,
                      optimal_discount_range = optimal_range\<rparr>))))"

definition calculate_win_back_probability :: "real \<Rightarrow> int \<Rightarrow> real \<Rightarrow> real \<Rightarrow> real" where
  "calculate_win_back_probability signal_strength weeks_since_loss score competitor_advantage =
     (let base_prob = 7 / 10;
          base_prob = base_prob - (signal_strength / 100) * (3 / 10);
          time_decay = min (3 / 10) (of_int weeks_since_loss * (3 / 100));
          base_prob = base_prob - time_decay;
          base_prob =
            (if score > 60 then base_prob + 15 / 100
             else if score > 40 then base_prob + 8 / 100
             else base_prob);
          base_prob = base_prob - (competitor_advantage / 100) * (2 / 10)
      in max (1 / 10) (min (9 / 10) base_prob))"

section \<open>The specification's formulas\<close>

text \<open>
  The two textbook formulas that the specification names, written from its words, to be
  compared with what the code computes: the coefficient of variation on the population
  standard deviation, and Pearson's correlation coefficient of two samples of equal
  length (0 when its denominator is 0).
\<close>

definition population_cv :: "real list \<Rightarrow> real" where
  "population_cv xs =
     sqrt (sum_list (map (\<lambda>x. (x - mean xs)\<^sup>2) xs) / real (length xs)) / mean xs"


section \<open>Example inputs\<close>

text \<open>Fixtures for the closed instances below: a grouped order and a profile.\<close>

definition qty_order :: "real \<Rightarrow> order" where
  "qty_order q = \<lparr>date = None, quantity = q, value_amt = 0\<rparr>"


text \<open>2024-03-11, 00:00, naive: 19793 days after 1970-01-01.\<close>

definition march_11 :: datetime where
  "march_11 = \<lparr>aware = False, micros = 1710115200000000\<rparr>"

text \<open>A raw order with the five fields of the documented input format.\<close>

definition raw :: "string \<Rightarrow> string \<Rightarrow> jv \<Rightarrow> jv \<Rightarrow> string \<Rightarrow> raw_order" where
  "raw c p q v d =
     empty_order\<lparr>r_customer_id := Some c, r_product := Some p, r_quantity := Some q,
                 r_value := Some v, r_date := Some d\<rparr>"



text \<open>No quantity of a group, or of a grouping, is negative.\<close>

definition nonneg_orders :: "order list \<Rightarrow> bool" where
  "nonneg_orders xs = list_all (\<lambda>ord. 0 \<le> quantity ord) xs"

definition nonneg_grouped :: "grouped \<Rightarrow> bool" where
  "nonneg_grouped g =
     list_all (\<lambda>(customer_id, categories).
        list_all (\<lambda>(category, cat_orders). nonneg_orders cat_orders) categories) g"

text \<open>Twenty-one consecutive order dates, oldest first.\<close>

definition january_dates :: "string list" where
  "january_dates =
     [''2024-01-01'', ''2024-01-02'', ''2024-01-03'', ''2024-01-04'', ''2024-01-05'',
      ''2024-01-06'', ''2024-01-07'', ''2024-01-08'', ''2024-01-09'', ''2024-01-10'',
      ''2024-01-11'', ''2024-01-12'', ''2024-01-13'', ''2024-01-14'', ''2024-01-15'',
      ''2024-01-16'', ''2024-01-17'', ''2024-01-18'', ''2024-01-19'', ''2024-01-20'',
      ''2024-01-21'']"

section \<open>Evaluation rules\<close>

lemmas date_defs =
  iso_date_def parse_iso_def replace_Z_def digit_val_def days_in_month_def is_leap_def
  days_from_civil_def day_micros_def minus_weeks_def days_since_def march_11_def

lemmas trend_defs = detect_trend_def default_engine_def Let_def

lemmas parse_defs =
  parse_orders_def parse_order_def empty_order_def order_customer_def order_product_def
  str_or_def truthy_str_def order_quantity_def order_value_def py_or_def get_or_def
  normalize_category_def lower_def lower_char_def category_synonyms_def raw_def kept_def



lemmas churn_defs =
  analyze_def analyze_pair_def sort_by_date_desc_def date_key_def calculate_baseline_def
  calculate_current_def last_n_def build_alert_def drop_pct_of_def severity_of_def
  int_div7_def detect_competitor_signal_def generate_recommendation_def py_round_def
  round_half_even_def severity_order_def


section \<open>Trend classification and severity\<close>



lemma build_alert_severity:
  "severity (build_alert e fromiso ref_date p) =
     severity_of e (trend p) (drop_pct_of (baseline_weekly_qty p) (current_weekly_qty p))"
  by (simp add: build_alert_def Let_def)



lemma drop_is_neg_change:
  "0 < b \<Longrightarrow> drop_pct_of b c = - ((c - b) / b * 100)"
  by (simp add: drop_pct_of_def field_simps)





section \<open>Win-back probability and the neutral profile\<close>

text \<open>
  C7. For every signal strength, number of weeks since the loss, sensitivity score and
  competitor advantage, the win-back probability is the clamp to \<open>[0.1, 0.9]\<close> of 0.70
  minus \<open>signalStrength / 100 * 0.3\<close>, minus \<open>min(0.3, weeks * 0.03)\<close>, plus 0.15 for
  a score above 60 or else 0.08 for a score above 40, minus
  \<open>competitorAdvantage / 100 * 0.2\<close>; so it always lies within \<open>[0.1, 0.9]\<close>.
\<close>

theorem win_back_probability_formula_and_range:
  "calculate_win_back_probability s w sc adv =
     max (1 / 10) (min (9 / 10)
       (7 / 10 - s / 100 * (3 / 10) - min (3 / 10) (of_int w * (3 / 100))
        + (if sc > 60 then 15 / 100 else if sc > 40 then 8 / 100 else 0)
        - adv / 100 * (2 / 10)))
   \<and> 1 / 10 \<le> calculate_win_back_probability s w sc adv
   \<and> calculate_win_back_probability s w sc adv \<le> 9 / 10"
proof -
  have clamp: "1 / 10 \<le> max (1 / 10) (min (9 / 10) x) \<and> max (1 / 10) (min (9 / 10) x) \<le> 9 / 10"
    for x :: real
    by (simp add: max_def min_def)
  have form: "calculate_win_back_probability s w sc adv =
     max (1 / 10) (min (9 / 10)
       (7 / 10 - s / 100 * (3 / 10) - min (3 / 10) (of_int w * (3 / 100))
        + (if sc > 60 then 15 / 100 else if sc > 40 then 8 / 100 else 0)
        - adv / 100 * (2 / 10)))"
    unfolding calculate_win_back_probability_def Let_def
    by (rule arg_cong [where f = "max (1 / 10)"], rule arg_cong [where f = "min (9 / 10)"]) simp
  show ?thesis
    using clamp form by presburger
qed

text \<open>
  C8. A list of fewer than two orders, the empty list included, gets the neutral profile
  (score 50, elasticity 1.0, premium 10, band 5 to 15) and no exception, whatever its
  one order holds.
\<close>

theorem short_history_neutral_profile:
  "length orders < 2 \<Longrightarrow>
   \<exists>cid. calculate_price_sensitivity orders category =
     Inr \<lparr>s_customer_id = cid, s_category = category, sensitivity_score = 50,
          price_elasticity = 1, acceptable_premium = 10,
          historical_price_response = ''neutral'', optimal_discount_range = (5, 15)\<rparr>"
  by (simp add: calculate_price_sensitivity_def)

theorem short_history_neutral_profile_witness:
  "length ([] :: raw_order list) < 2 \<and>
   calculate_price_sensitivity [] ''chicken'' =
     Inr \<lparr>s_customer_id = ''unknown'', s_category = ''chicken'', sensitivity_score = 50,
          price_elasticity = 1, acceptable_premium = 10,
          historical_price_response = ''neutral'', optimal_discount_range = (5, 15)\<rparr> \<and>
   length [empty_order\<lparr>r_customer_id := Some ''C1'', r_quantity := Some (JStr ''abc'')\<rparr>] < 2 \<and>
   calculate_price_sensitivity
       [empty_order\<lparr>r_customer_id := Some ''C1'', r_quantity := Some (JStr ''abc'')\<rparr>] ''chicken'' =
     Inr \<lparr>s_customer_id = ''C1'', s_category = ''chicken'', sensitivity_score = 50,
          price_elasticity = 1, acceptable_premium = 10,
          historical_price_response = ''neutral'', optimal_discount_range = (5, 15)\<rparr>"
  using short_history_neutral_profile [of "[]" "''chicken''"]
    short_history_neutral_profile
      [of "[empty_order\<lparr>r_customer_id := Some ''C1'', r_quantity := Some (JStr ''abc'')\<rparr>]"
          "''chicken''"]
  by (simp add: calculate_price_sensitivity_def empty_order_def)


section \<open>Volatility\<close>

lemma sum_list_pos_filter:
  assumes "xs \<noteq> []" "list_all (\<lambda>q. q > 0) xs"
  shows "0 < sum_list (xs :: real list)"
proof (cases xs)
  case Nil
  with assms show ?thesis by simp
next
  case (Cons a rest)
  with assms have "0 < a" and "\<And>x. x \<in> set rest \<Longrightarrow> 0 \<le> x"
    by (auto simp: list_all_iff intro: less_imp_le)
  then have "0 < a" and "0 \<le> sum_list rest"
    by (simp_all add: sum_list_nonneg)
  with Cons show ?thesis by simp
qed

lemma mean_pos:
  assumes "xs \<noteq> []" "list_all (\<lambda>q. q > 0) xs"
  shows "0 < mean xs"
  using sum_list_pos_filter [OF assms] assms(1) by (simp add: mean_def)

lemma sqrt_ratio:
  assumes "0 < n" "0 < m"
  shows "sqrt (S / m) = sqrt (n / m) * sqrt (S / n)"
proof -
  have "sqrt (n / m) * sqrt (S / n) = sqrt ((n / m) * (S / n))"
    by (simp only: real_sqrt_mult)
  also have "(n / m) * (S / n) = S / m"
    using assms by simp
  finally show ?thesis by simp
qed

lemma sample_vs_population:
  assumes "2 \<le> length xs"
  shows "stdev xs / mean xs = sqrt (real (length xs) / real (length xs - 1)) * population_cv xs"
proof -
  have "0 < real (length xs)" and "0 < real (length xs - 1)"
    using assms by auto
  then show ?thesis
    unfolding stdev_def population_cv_def
    by (subst sqrt_ratio [of "real (length xs)" "real (length xs - 1)"]) simp_all
qed

text \<open>
  C5, as the code has it. With \<open>qs\<close> the quantities above 0: the volatility is 0 when
  \<open>qs\<close> has fewer than two elements; otherwise the mean of \<open>qs\<close> is positive (the test
  for a zero mean never fires) and the volatility is the sample standard deviation, with
  the divisor \<open>n - 1\<close>, over the mean. That is the population coefficient of variation
  multiplied by \<open>sqrt (n / (n - 1))\<close>, not the population coefficient itself.
\<close>

theorem volatility_sample_cv:
  "(length (filter (\<lambda>q. q > 0) (map quantity orders)) < 2 \<longrightarrow> calculate_volatility orders = 0) \<and>
   (2 \<le> length (filter (\<lambda>q. q > 0) (map quantity orders)) \<longrightarrow>
      mean (filter (\<lambda>q. q > 0) (map quantity orders)) > 0 \<and>
      calculate_volatility orders =
        sqrt (sum_list (map (\<lambda>x. (x - mean (filter (\<lambda>q. q > 0) (map quantity orders)))\<^sup>2)
                 (filter (\<lambda>q. q > 0) (map quantity orders)))
              / real (length (filter (\<lambda>q. q > 0) (map quantity orders)) - 1))
        / mean (filter (\<lambda>q. q > 0) (map quantity orders)) \<and>
      calculate_volatility orders =
        sqrt (real (length (filter (\<lambda>q. q > 0) (map quantity orders)))
              / real (length (filter (\<lambda>q. q > 0) (map quantity orders)) - 1))
        * population_cv (filter (\<lambda>q. q > 0) (map quantity orders)))"
proof -
  define qs where "qs = filter (\<lambda>q. q > 0) (map quantity orders)"
  have vol: "calculate_volatility orders =
      (if length qs < 2 then 0 else if mean qs = 0 then 0 else stdev qs / mean qs)"
    by (simp only: calculate_volatility_def Let_def qs_def)
  have pos: "0 < mean qs" if "2 \<le> length qs"
  proof -
    from that have "qs \<noteq> []" by auto
    moreover have "list_all (\<lambda>q. q > 0) qs" by (simp add: qs_def list_all_iff)
    ultimately show ?thesis by (rule mean_pos)
  qed
  have small: "length qs < 2 \<longrightarrow> calculate_volatility orders = 0"
    by (simp add: vol)
  have big: "2 \<le> length qs \<longrightarrow>
      mean qs > 0 \<and>
      calculate_volatility orders =
        sqrt (sum_list (map (\<lambda>x. (x - mean qs)\<^sup>2) qs) / real (length qs - 1)) / mean qs \<and>
      calculate_volatility orders =
        sqrt (real (length qs) / real (length qs - 1)) * population_cv qs"
  proof
    assume two: "2 \<le> length qs"
    from pos [OF two] two have v: "calculate_volatility orders = stdev qs / mean qs"
      by (simp add: vol)
    show "mean qs > 0 \<and>
      calculate_volatility orders =
        sqrt (sum_list (map (\<lambda>x. (x - mean qs)\<^sup>2) qs) / real (length qs - 1)) / mean qs \<and>
      calculate_volatility orders =
        sqrt (real (length qs) / real (length qs - 1)) * population_cv qs"
      using pos [OF two] v sample_vs_population [OF two]
      by (simp add: stdev_def)
  qed
  from small big show ?thesis
    unfolding qs_def by (rule conjI)
qed

text \<open>
  Quantities 2, 4 and 6 (and one order of quantity 0, which the filter drops): mean 4,
  sample variance 4, volatility 2 / 4; a single positive quantity gives 0.
\<close>

theorem volatility_sample_cv_witness:
  "length (filter (\<lambda>q. q > 0) (map quantity [qty_order 2, qty_order 0, qty_order 4, qty_order 6])) = 3 \<and>
   calculate_volatility [qty_order 2, qty_order 0, qty_order 4, qty_order 6] = 1 / 2 \<and>
   length (filter (\<lambda>q. q > 0) (map quantity [qty_order 5, qty_order 0])) = 1 \<and>
   calculate_volatility [qty_order 5, qty_order 0] = 0"
  using volatility_sample_cv [of "[qty_order 2, qty_order 0, qty_order 4, qty_order 6]"]
    volatility_sample_cv [of "[qty_order 5, qty_order 0]"]
  by (simp add: qty_order_def mean_def power2_eq_square)

text \<open>
  The claim as stated fails on the quantities 1 and 3: the code returns
  \<open>sqrt 2 / 2\<close>, the population coefficient of variation is \<open>1 / 2\<close>.
\<close>

theorem volatility_population_cv_counterexample:
  "calculate_volatility [qty_order 1, qty_order 3] = sqrt 2 / 2 \<and>
   population_cv (filter (\<lambda>q. q > 0) (map quantity [qty_order 1, qty_order 3])) = 1 / 2 \<and>
   calculate_volatility [qty_order 1, qty_order 3] \<noteq>
     population_cv (filter (\<lambda>q. q > 0) (map quantity [qty_order 1, qty_order 3]))"
  by (simp add: calculate_volatility_def qty_order_def mean_def stdev_def population_cv_def
      power2_eq_square)


section \<open>Grouping and coercion\<close>

lemma parse_order_not_kept: "\<not> kept ord \<Longrightarrow> parse_order sf g ord = Inr g"
  by (auto simp: parse_order_def kept_def truthy_str_def split: option.splits)

lemma parse_order_kept:
  assumes "kept ord"
  shows "parse_order sf g ord =
    (case order_quantity sf ord of
       Inl e \<Rightarrow> Inl e
     | Inr q \<Rightarrow>
         (case order_value sf ord of
            Inl e \<Rightarrow> Inl e
          | Inr v \<Rightarrow>
              Inr (dd_update (the (order_customer ord)) []
                     (dd_update (normalize_category (the (order_product ord))) []
                        (\<lambda>xs. xs @ [\<lparr>date = str_or (r_date ord) (r_order_date ord),
                                       quantity = q, value_amt = v\<rparr>]))
                     g)))"
  using assms
  by (auto simp: parse_order_def kept_def truthy_str_def Let_def split: option.splits sum.splits)












section \<open>Price sensitivity\<close>








lemma quantities_of_total:
  "prices_of orders = Inr ps \<Longrightarrow> \<exists>qs. quantities_of orders = Inr qs"
proof (induction orders arbitrary: ps)
  case Nil
  then show ?case by simp
next
  case (Cons ord orders)
  then show ?case
    by (fastforce split: sum.splits if_splits)
qed








section \<open>Alerts of the main analysis\<close>

lemma dd_update_all:
  assumes "list_all (\<lambda>(k, v). P v) kvs" "P (f d)" "\<And>v. P v \<Longrightarrow> P (f v)"
  shows "list_all (\<lambda>(k, v). P v) (dd_update k d f kvs)"
  using assms by (induction kvs) auto

lemma parse_order_nonneg:
  assumes "nonneg_grouped g" "parse_order sf g ord = Inr g'"
    "kept ord \<longrightarrow> (\<forall>q. order_quantity sf ord = Inr q \<longrightarrow> 0 \<le> q)"
  shows "nonneg_grouped g'"
proof (cases "kept ord")
  case False
  with assms show ?thesis by (simp add: parse_order_not_kept)
next
  case True
  with assms(2) obtain q v where q: "order_quantity sf ord = Inr q"
    and g': "g' = dd_update (the (order_customer ord)) []
                     (dd_update (normalize_category (the (order_product ord))) []
                        (\<lambda>xs. xs @ [\<lparr>date = str_or (r_date ord) (r_order_date ord),
                                       quantity = q, value_amt = v\<rparr>]))
                     g"
    by (auto simp: parse_order_kept split: sum.splits)
  from True q assms(3) have "0 \<le> q" by simp
  define add_order where "add_order =
     dd_update (normalize_category (the (order_product ord))) []
        (\<lambda>xs. xs @ [\<lparr>date = str_or (r_date ord) (r_order_date ord),
                       quantity = q, value_amt = v\<rparr>])"
  have inner: "list_all (\<lambda>(category, cat_orders). nonneg_orders cat_orders) (add_order cats)"
    if "list_all (\<lambda>(category, cat_orders). nonneg_orders cat_orders) cats" for cats
    unfolding add_order_def using that \<open>0 \<le> q\<close>
    by (intro dd_update_all) (simp_all add: nonneg_orders_def)
  from assms(1) have "list_all (\<lambda>(customer_id, categories).
        list_all (\<lambda>(category, cat_orders). nonneg_orders cat_orders) categories) g"
    by (simp add: nonneg_grouped_def)
  then have "list_all (\<lambda>(customer_id, categories).
        list_all (\<lambda>(category, cat_orders). nonneg_orders cat_orders) categories)
        (dd_update (the (order_customer ord)) [] add_order g)"
  proof (rule dd_update_all)
    show "list_all (\<lambda>(category, cat_orders). nonneg_orders cat_orders) (add_order [])"
      by (rule inner) simp
  next
    fix cats :: "(string \<times> order list) list"
    assume "list_all (\<lambda>(category, cat_orders). nonneg_orders cat_orders) cats"
    then show "list_all (\<lambda>(category, cat_orders). nonneg_orders cat_orders) (add_order cats)"
      by (rule inner)
  qed
  then show ?thesis
    unfolding g' nonneg_grouped_def add_order_def .
qed

lemma parse_loop_nonneg:
  assumes "nonneg_grouped g" "parse_loop sf g orders = Inr g'"
    "\<forall>ord \<in> set orders. kept ord \<longrightarrow> (\<forall>q. order_quantity sf ord = Inr q \<longrightarrow> 0 \<le> q)"
  shows "nonneg_grouped g'"
  using assms
proof (induction orders arbitrary: g)
  case Nil
  then show ?case by simp
next
  case (Cons ord orders)
  from Cons.prems(2) obtain g1 where g1: "parse_order sf g ord = Inr g1"
    and rest: "parse_loop sf g1 orders = Inr g'"
    by (auto split: sum.splits)
  from Cons.prems(1) g1 Cons.prems(3) have "nonneg_grouped g1"
    by (intro parse_order_nonneg [of g sf ord g1]) simp_all
  with rest Cons.prems(3) show ?case
    by (intro Cons.IH [of g1]) simp_all
qed

lemma baseline_window_subset:
  "baseline_window fromiso bstart bend orders = Inr rest \<Longrightarrow> set rest \<subseteq> set orders"
proof (induction orders arbitrary: rest)
  case Nil
  then show ?case by simp
next
  case (Cons ord orders)
  then show ?case
    by (fastforce split: option.splits sum.splits if_splits)
qed

lemma sum_quantity_nonneg:
  assumes "\<And>ord. ord \<in> set xs \<Longrightarrow> 0 \<le> quantity ord"
  shows "0 \<le> sum_list (map quantity xs)"
  using assms by (intro sum_list_nonneg) auto

lemma calculate_baseline_nonneg:
  assumes "nonneg_orders orders"
    "calculate_baseline e fromiso orders reference_date = Inr (baseline_qty, baseline_value)"
  shows "0 \<le> baseline_qty"
proof -
  from assms(2) obtain in_window where
    win: "baseline_window fromiso (minus_weeks reference_date (lookback_weeks e))
            (minus_weeks reference_date (lookback_weeks e - baseline_weeks e)) orders = Inr in_window"
    by (auto simp: calculate_baseline_def Let_def split: sum.splits)
  define baseline_orders where "baseline_orders =
     (if in_window = []
      then (if length orders > 4 then take (length orders div 2) orders else orders)
      else in_window)"
  from assms(2) win have bq: "baseline_qty =
      sum_list (map quantity baseline_orders) / of_int (max 1 (baseline_weeks e))"
    by (simp add: calculate_baseline_def Let_def baseline_orders_def)
  have "set baseline_orders \<subseteq> set orders"
    using baseline_window_subset [OF win]
    by (auto simp: baseline_orders_def dest: in_set_takeD)
  with assms(1) have "\<And>ord. ord \<in> set baseline_orders \<Longrightarrow> 0 \<le> quantity ord"
    by (auto simp: nonneg_orders_def list_all_iff)
  then have "0 \<le> sum_list (map quantity baseline_orders)"
    by (rule sum_quantity_nonneg)
  moreover have "(0 :: real) < of_int (max 1 (baseline_weeks e))" by simp
  ultimately show ?thesis
    unfolding bq by (intro divide_nonneg_pos)
qed

lemma sort_by_date_desc_set:
  "sort_by_date_desc xs = Inr ys \<Longrightarrow> set ys = set xs"
  by (auto simp: sort_by_date_desc_def split: if_splits)

lemma unhealthy_not_watch:
  assumes "0 \<le> b" "tr = detect_trend e fromiso b c lastd ref" "tr = Stopped \<or> tr = Declining"
  shows "severity_of e tr (drop_pct_of b c) \<noteq> Watch"
proof (cases "tr = Stopped")
  case True
  then show ?thesis by (simp add: severity_of_def)
next
  case False
  with assms(3) have d: "detect_trend e fromiso b c lastd ref = Declining"
    using assms(2) by simp
  then have "b \<noteq> 0" and "(c - b) / b * 100 \<le> - decline_pct e"
    by (auto simp: detect_trend_def Let_def split: if_splits)
  with assms(1) have "decline_pct e \<le> drop_pct_of b c"
    by (simp add: drop_is_neg_change)
  then show ?thesis by (simp add: severity_of_def)
qed

lemma analyze_pair_not_watch:
  assumes "nonneg_orders orders"
    "analyze_pair e fromiso ref_date customer_id category orders = Inr (profile, Some a)"
  shows "severity a \<noteq> Watch"
proof -
  from assms(2) obtain cat_orders bq bv cq lastd where
    srt: "sort_by_date_desc orders = Inr cat_orders" and
    base: "calculate_baseline e fromiso cat_orders ref_date = Inr (bq, bv)" and
    tr: "trend profile = detect_trend e fromiso bq cq lastd ref_date" and
    rates: "baseline_weekly_qty profile = bq" "current_weekly_qty profile = cq" and
    unhealthy: "trend profile = Stopped \<or> trend profile = Declining" and
    a: "a = build_alert e fromiso ref_date profile"
    by (auto simp: analyze_pair_def Let_def split: sum.splits if_splits)
  from assms(1) sort_by_date_desc_set [OF srt] have "nonneg_orders cat_orders"
    by (simp add: nonneg_orders_def list_all_iff)
  then have "0 \<le> bq" using base by (rule calculate_baseline_nonneg)
  then have "severity_of e (trend profile) (drop_pct_of bq cq) \<noteq> Watch"
    using tr unhealthy by (rule unhealthy_not_watch)
  with a rates show ?thesis by (simp add: build_alert_severity)
qed

lemma analyze_categories_not_watch:
  assumes "list_all (\<lambda>(category, cat_orders). nonneg_orders cat_orders) categories"
    "analyze_categories e fromiso ref_date customer_id categories = Inr (profiles, emitted)"
  shows "list_all (\<lambda>a. severity a \<noteq> Watch) emitted"
  using assms
proof (induction categories arbitrary: profiles emitted)
  case Nil
  then show ?case by simp
next
  case (Cons pair rest)
  obtain category cat_orders where pair: "pair = (category, cat_orders)" by (cases pair)
  from Cons.prems(2) pair obtain profile alert ps em where
    one: "analyze_pair e fromiso ref_date customer_id category cat_orders = Inr (profile, alert)" and
    more: "analyze_categories e fromiso ref_date customer_id rest = Inr (ps, em)" and
    emitted: "emitted = (case alert of None \<Rightarrow> em | Some a \<Rightarrow> a # em)"
    by (auto split: sum.splits)
  from Cons.prems(1) more have em: "list_all (\<lambda>a. severity a \<noteq> Watch) em"
    by (intro Cons.IH [of ps em]) simp_all
  show ?case
  proof (cases alert)
    case None
    with emitted em show ?thesis by simp
  next
    case (Some a)
    from Cons.prems(1) pair have "nonneg_orders cat_orders" by simp
    with one Some have "severity a \<noteq> Watch"
      by (intro analyze_pair_not_watch [of cat_orders e fromiso ref_date customer_id category profile a]) simp_all
    with emitted em Some show ?thesis by simp
  qed
qed

lemma analyze_customers_not_watch:
  assumes "nonneg_grouped grouped"
    "analyze_customers e fromiso ref_date grouped = Inr (profiles, emitted)"
  shows "list_all (\<lambda>a. severity a \<noteq> Watch) emitted"
  using assms
proof (induction grouped arbitrary: profiles emitted)
  case Nil
  then show ?case by simp
next
  case (Cons pair rest)
  obtain customer_id categories where pair: "pair = (customer_id, categories)" by (cases pair)
  from Cons.prems(2) pair obtain cps cas ps em where
    one: "analyze_categories e fromiso ref_date customer_id categories = Inr (cps, cas)" and
    more: "analyze_customers e fromiso ref_date rest = Inr (ps, em)" and
    emitted: "emitted = cas @ em"
    by (auto split: sum.splits)
  from Cons.prems(1) more have "list_all (\<lambda>a. severity a \<noteq> Watch) em"
    by (intro Cons.IH [of ps em]) (simp_all add: nonneg_grouped_def)
  moreover from Cons.prems(1) pair one have "list_all (\<lambda>a. severity a \<noteq> Watch) cas"
    by (intro analyze_categories_not_watch [of categories e fromiso ref_date customer_id cps cas])
       (simp_all add: nonneg_grouped_def)
  ultimately show ?case using emitted by simp
qed

text \<open>
  C10. Whenever \<open>analyze\<close> returns a report for a batch in which the coerced quantity
  of every kept record is non-negative, each alert of the report has the severity
  critical or warning: the baseline rate is then non-negative, a declining trend needs a
  non-zero baseline and a change of at most minus the decline threshold, so the drop
  percentage reaches that threshold; a stopped trend is critical. This holds for every
  setting of the thresholds and windows.
\<close>

theorem alerts_never_watch:
  assumes "analyze e sf fromiso now orders reference_date = Inr rep"
    and "\<forall>ord \<in> set orders. kept ord \<longrightarrow> (\<forall>q. order_quantity sf ord = Inr q \<longrightarrow> 0 \<le> q)"
    and "a \<in> set (alerts rep)"
  shows "severity a = Critical \<or> severity a = Warning"
proof -
  from assms(1) obtain ref_date grouped profiles emitted where
    parsed: "parse_orders sf orders = Inr grouped" and
    run: "analyze_customers e fromiso ref_date grouped = Inr (profiles, emitted)" and
    rep: "alerts rep = sort_key (\<lambda>a. (severity_order (severity a), - estimated_lost_revenue a)) emitted"
    by (auto simp: analyze_def split: sum.splits option.splits if_splits)
  have "nonneg_grouped []" by (simp add: nonneg_grouped_def)
  with parsed assms(2) have "nonneg_grouped grouped"
    unfolding parse_orders_def by (intro parse_loop_nonneg [of "[]" sf orders grouped]) simp_all
  then have "list_all (\<lambda>a. severity a \<noteq> Watch) emitted"
    using run by (rule analyze_customers_not_watch)
  moreover from assms(3) rep have "a \<in> set emitted" by simp
  ultimately have "severity a \<noteq> Watch" by (simp add: list_all_iff)
  then show ?thesis by (cases "severity a") simp_all
qed

text \<open>
  A batch of two orders of one category, 80 units nine weeks and 20 units six days
  before the reference date: baseline 10, current 5, a declining trend, a drop of 50
  percent and one alert, of severity warning.
\<close>

theorem alerts_never_watch_witness:
  "order_quantity decimal_float (raw ''C1'' ''rice'' (JNum 80) (JNum 160) ''2024-01-05'') = Inr 80 \<and>
   order_quantity decimal_float (raw ''C1'' ''rice'' (JNum 20) (JNum 40) ''2024-03-05'') = Inr 20 \<and>
   (\<exists>rep. analyze default_engine decimal_float iso_date march_11
        [raw ''C1'' ''rice'' (JNum 80) (JNum 160) ''2024-01-05'',
         raw ''C1'' ''rice'' (JNum 20) (JNum 40) ''2024-03-05''] None = Inr rep \<and>
      map signal_type (alerts rep) = [Declining] \<and>
      map drop_percentage (alerts rep) = [50] \<and>
      map severity (alerts rep) = [Warning])"
proof -
  let ?o1 = "raw ''C1'' ''rice'' (JNum 80) (JNum 160) ''2024-01-05''"
  let ?o2 = "raw ''C1'' ''rice'' (JNum 20) (JNum 40) ''2024-03-05''"
  have q1: "order_quantity decimal_float ?o1 = Inr 80"
    by (simp add: order_quantity_def raw_def empty_order_def get_or_def py_or_def)
  have q2: "order_quantity decimal_float ?o2 = Inr 20"
    by (simp add: order_quantity_def raw_def empty_order_def get_or_def py_or_def)
  have "\<exists>rep. analyze default_engine decimal_float iso_date march_11 [?o1, ?o2] None = Inr rep \<and>
      map signal_type (alerts rep) = [Declining] \<and> map drop_percentage (alerts rep) = [50] \<and>
      map severity (alerts rep) = [Warning]"
    by (simp add: churn_defs parse_defs date_defs trend_defs)
  then obtain rep where run:
    "analyze default_engine decimal_float iso_date march_11 [?o1, ?o2] None = Inr rep \<and>
      map signal_type (alerts rep) = [Declining] \<and> map drop_percentage (alerts rep) = [50] \<and>
      map severity (alerts rep) = [Warning]" ..
  note ev = run [THEN conjunct1] and one = run [THEN conjunct2]
  have nn: "\<forall>ord \<in> set [?o1, ?o2]. kept ord \<longrightarrow>
      (\<forall>q. order_quantity decimal_float ord = Inr q \<longrightarrow> 0 \<le> q)"
    using q1 q2 by simp
  have sev: "list_all (\<lambda>a. severity a = Critical \<or> severity a = Warning) (alerts rep)"
    using alerts_never_watch [OF ev nn] by (simp add: list_all_iff)
  from q1 q2 ev one sev show ?thesis
    by (intro conjI exI [of _ rep]) simp_all
qed


section \<open>The stored order history\<close>

text \<open>
  The history of a profile is the slice \<open>cat_orders[-20:]\<close> of the list sorted by
  date, most recent first: its last twenty elements.
\<close>

lemma order_history_is_tail:
  assumes "analyze_pair e fromiso ref_date customer_id category orders = Inr (profile, alert)"
  shows "order_history profile = last_n 20 (rev (sort_key date_key (rev orders)))"
  using assms
  by (auto simp: analyze_pair_def sort_by_date_desc_def Let_def split: sum.splits if_splits)

text \<open>
  C4 fails on the code. Twenty-one orders of one customer and category, dated 1 to 21
  January 2024, analysed for 1 February: the profile's last order date is 21 January,
  and its history holds the orders of 20 January down to 1 January, most recent first.
  The order of 21 January, the most recent one, is the one dropped; the oldest is kept.
\<close>

theorem order_history_drops_latest:
  "\<exists>rep p. analyze default_engine decimal_float iso_date march_11
       (map (raw ''C1'' ''rice'' (JNum 1) (JNum 10)) january_dates) (Some ''2024-02-01'') = Inr rep \<and>
     customer_profiles rep = [(''C1'', [(''rice'', p)])] \<and>
     last_order_date p = Some ''2024-01-21'' \<and>
     map date (order_history p) = map Some (rev (take 20 january_dates)) \<and>
     Some ''2024-01-21'' \<notin> set (map date (order_history p)) \<and>
     Some ''2024-01-01'' \<in> set (map date (order_history p))"
proof -
  have "\<exists>rep p. analyze default_engine decimal_float iso_date march_11
       (map (raw ''C1'' ''rice'' (JNum 1) (JNum 10)) january_dates) (Some ''2024-02-01'') = Inr rep \<and>
     customer_profiles rep = [(''C1'', [(''rice'', p)])] \<and>
     last_order_date p = Some ''2024-01-21'' \<and>
     map date (order_history p) = map Some (rev (take 20 january_dates))"
    by (simp add: analyze_def parse_defs analyze_pair_def sort_by_date_desc_def january_dates_def
        date_key_def calculate_baseline_def calculate_current_def date_defs trend_defs last_n_def
        build_alert_def)
  then obtain rep where "\<exists>p. analyze default_engine decimal_float iso_date march_11
       (map (raw ''C1'' ''rice'' (JNum 1) (JNum 10)) january_dates) (Some ''2024-02-01'') = Inr rep \<and>
     customer_profiles rep = [(''C1'', [(''rice'', p)])] \<and>
     last_order_date p = Some ''2024-01-21'' \<and>
     map date (order_history p) = map Some (rev (take 20 january_dates))" ..
  then obtain p where run: "analyze default_engine decimal_float iso_date march_11
       (map (raw ''C1'' ''rice'' (JNum 1) (JNum 10)) january_dates) (Some ''2024-02-01'') = Inr rep \<and>
     customer_profiles rep = [(''C1'', [(''rice'', p)])] \<and>
     last_order_date p = Some ''2024-01-21'' \<and>
     map date (order_history p) = map Some (rev (take 20 january_dates))" ..
  have mem: "Some ''2024-01-21'' \<notin> set (map Some (rev (take 20 january_dates))) \<and>
     Some ''2024-01-01'' \<in> set (map Some (rev (take 20 january_dates)))"
    by (simp add: january_dates_def)
  from run have hist: "map date (order_history p) = map Some (rev (take 20 january_dates))"
    by (elim conjE)
  have "Some ''2024-01-21'' \<notin> set (map date (order_history p)) \<and>
     Some ''2024-01-01'' \<in> set (map date (order_history p))"
    unfolding hist by (rule mem)
  with run show ?thesis
    by (intro exI [of _ rep] exI [of _ p]) (elim conjE, intro conjI, assumption+)
qed


end
